theory Spec2Isabelle
  imports Complex_Main
begin

section \<open>The environment of the font scripts\<close>

text \<open>
  The scripts \<^verbatim>\<open>regenerate_zpix_fonts.py\<close> and \<^verbatim>\<open>test_zpix_font.py\<close> talk to three
  things: the file system (\<^verbatim>\<open>os.path.exists\<close>, \<^verbatim>\<open>os.path.getsize\<close>), an external
  process (\<^verbatim>\<open>subprocess.run\<close>) and the terminal (\<^verbatim>\<open>print\<close>). Each is made explicit.

  A path is looked up with \<^verbatim>\<open>stat\<close>: it is absent, or present but not reachable (no
  permission on a parent directory), or it has a size in bytes.
\<close>

type_synonym path = string

datatype fstat = Missing | Inaccessible | File nat

type_synonym filesystem = "path \<Rightarrow> fstat"

datatype py_error = ValueError | OverflowError | OSError

text \<open>\<^verbatim>\<open>os.path.exists\<close> answers False whenever \<^verbatim>\<open>stat\<close> fails; it never raises.\<close>

definition path_exists :: "filesystem \<Rightarrow> path \<Rightarrow> bool" where
  "path_exists f p = (case f p of File n \<Rightarrow> True | Missing \<Rightarrow> False | Inaccessible \<Rightarrow> False)"

text \<open>\<^verbatim>\<open>os.path.getsize\<close> raises \<^verbatim>\<open>OSError\<close> when \<^verbatim>\<open>stat\<close> fails.\<close>

definition getsize :: "filesystem \<Rightarrow> path \<Rightarrow> py_error + nat" where
  "getsize f p = (case f p of File n \<Rightarrow> Inr n | Missing \<Rightarrow> Inl OSError | Inaccessible \<Rightarrow> Inl OSError)"

text \<open>
  What \<^verbatim>\<open>subprocess.run(cmd, capture_output=True, text=True, timeout=t)\<close> can give back:
  a completed process with its return code and captured streams, the exception
  \<^verbatim>\<open>subprocess.TimeoutExpired\<close>, or another exception (the executable is not found,
  permission is denied, ...) with its text.
\<close>

datatype proc_result =
    Completed int string string
  | TimeoutExpired
  | Raised string

text \<open>
  The external program is a black box: from the command line, the timeout in seconds and
  the file system it finds, it gives a result and the file system it leaves.
\<close>

type_synonym tool = "string list \<Rightarrow> nat \<Rightarrow> filesystem \<Rightarrow> proc_result \<times> filesystem"

text \<open>
  The lines the scripts print: one constructor per \<^verbatim>\<open>print\<close> call of the source that
  shows a value, one per block of fixed lines. A size shown in KB or as a percentage is
  kept as the integers it is computed from.
\<close>

datatype msg =
    ToolAvailable
  | ToolUnavailable
  | FontFileMissing
  | Generating int
  | CommandLine string
  | GenerateOk int path
  | FileSizeKB nat
  | GenerateFailed string
  | GenerateTimeout
  | GenerateError string
  | BatchHeader
  | BatchSummary nat nat
  | Advice
  | ArtifactExists path
  | ArtifactSize nat
  | ArtifactMissing path
  | MemoryHeader
  | Size20 nat
  | Size60 nat
  | MemoryTotal nat
  | FlashUsage nat nat
  | RamNote
  | RangeHeader
  | RawRange string
  | IncludedChars "int list"
  | CharCount nat

record world =
  fs :: filesystem
  calls :: "(string list \<times> nat) list"
  out :: "msg list"

definition print :: "msg \<Rightarrow> world \<Rightarrow> world" where
  "print m w = w\<lparr>out := out w @ [m]\<rparr>"

text \<open>Running the external program records the command and lets it act on the files.\<close>

definition subprocess_run :: "tool \<Rightarrow> string list \<Rightarrow> nat \<Rightarrow> world \<Rightarrow> proc_result \<times> world" where
  "subprocess_run t cmd timeout w =
     (case t cmd timeout (fs w) of
        (r, f') \<Rightarrow> (r, w\<lparr>fs := f', calls := calls w @ [(cmd, timeout)]\<rparr>))"

section \<open>Python's \<^verbatim>\<open>str\<close> of an integer and \<^verbatim>\<open>str.join\<close>\<close>

definition digit_char :: "nat \<Rightarrow> char" where
  "digit_char d = ''0123456789'' ! d"

function str_nat :: "nat \<Rightarrow> string" where
  "str_nat n = (if n < 10 then [digit_char n] else str_nat (n div 10) @ [digit_char (n mod 10)])"
  by pat_completeness auto
termination
  by (relation "measure (\<lambda>n. n)") auto

declare str_nat.simps [simp del]

definition str_int :: "int \<Rightarrow> string" where
  "str_int i = (if i < 0 then CHR ''-'' # str_nat (nat (- i)) else str_nat (nat i))"

fun join :: "string \<Rightarrow> string list \<Rightarrow> string" where
  "join sep [] = []"
| "join sep [x] = x"
| "join sep (x # y # ys) = x @ sep @ join sep (y # ys)"

section \<open>\<^verbatim>\<open>regenerate_zpix_fonts.py\<close>\<close>

subsection \<open>\<^verbatim>\<open>check_lv_font_conv\<close>\<close>

text \<open>
  The \<^verbatim>\<open>try\<close> block returns True on return code 0; a bare \<^verbatim>\<open>except\<close> swallows every
  exception, and every other path prints that the tool is missing and returns False.
\<close>

definition check_lv_font_conv :: "tool \<Rightarrow> world \<Rightarrow> bool \<times> world" where
  "check_lv_font_conv t w =
     (case subprocess_run t [''npx'', ''lv_font_conv'', ''--help''] 10 w of
        (Completed rc so se, w1) \<Rightarrow>
          if rc = 0 then (True, print ToolAvailable w1)
          else (False, print ToolUnavailable w1)
      | (TimeoutExpired, w1) \<Rightarrow> (False, print ToolUnavailable w1)
      | (Raised e, w1) \<Rightarrow> (False, print ToolUnavailable w1))"

subsection \<open>\<^verbatim>\<open>generate_font\<close>\<close>

definition char_range :: string where
  "char_range = ''0x30-0x39,0x2B,0x2D,0x2A,0x2F,0x3D,0x2E,0x25,0x28,0x29,0x43,0x45,0x49,0x4E,0x4F,0x52,0x72,0x6F,0x65,0x74,0x61,0x6E,0x20,0x2C,0xA5,0x24''"

definition font_cmd :: "int \<Rightarrow> path \<Rightarrow> string list" where
  "font_cmd sz output_file =
     [''npx'', ''lv_font_conv'',
      ''--font'', ''zpix.ttf'',
      ''--size'', str_int sz,
      ''--bpp'', ''4'',
      ''--format'', ''lvgl'',
      ''--no-compress'',
      ''--output'', output_file,
      ''--range'', char_range]"

text \<open>
  The font file is checked first. Inside the \<^verbatim>\<open>try\<close>, return code 0 prints the success
  line and returns True; the size line is printed only if the output file is there. An
  \<^verbatim>\<open>OSError\<close> of \<^verbatim>\<open>getsize\<close> would be caught by \<^verbatim>\<open>except Exception\<close>.
\<close>

definition generate_font :: "tool \<Rightarrow> int \<Rightarrow> path \<Rightarrow> world \<Rightarrow> bool \<times> world" where
  "generate_font t sz output_file w =
     (if \<not> path_exists (fs w) ''zpix.ttf'' then (False, print FontFileMissing w)
      else
        let cmd = font_cmd sz output_file;
            w1 = print (Generating sz) w;
            w2 = print (CommandLine (join '' '' cmd)) w1
        in case subprocess_run t cmd 60 w2 of
             (Completed rc so se, w3) \<Rightarrow>
               if rc = 0 then
                 let w4 = print (GenerateOk sz output_file) w3 in
                 if path_exists (fs w4) output_file then
                   (case getsize (fs w4) output_file of
                      Inr n \<Rightarrow> (True, print (FileSizeKB n) w4)
                    | Inl e \<Rightarrow> (False, print (GenerateError ''OSError'') w4))
                 else (True, w4)
               else (False, print (GenerateFailed se) w3)
           | (TimeoutExpired, w3) \<Rightarrow> (False, print GenerateTimeout w3)
           | (Raised e, w3) \<Rightarrow> (False, print (GenerateError e) w3))"

subsection \<open>\<^verbatim>\<open>generate_test_fonts\<close>\<close>

definition test_sizes :: "(int \<times> path) list" where
  "test_sizes =
     [(30, ''src/fonts/lv_font_zpix_30.c''),
      (80, ''src/fonts/lv_font_zpix_80.c''),
      (100, ''src/fonts/lv_font_zpix_100.c'')]"

text \<open>The \<^verbatim>\<open>for\<close> loop over the sizes, with the counter \<^verbatim>\<open>success_count\<close>.\<close>

fun generate_loop :: "tool \<Rightarrow> (int \<times> path) list \<Rightarrow> nat \<Rightarrow> world \<Rightarrow> nat \<times> world" where
  "generate_loop t [] success_count w = (success_count, w)"
| "generate_loop t ((sz, output) # rest) success_count w =
     (case generate_font t sz output w of
        (ok, w') \<Rightarrow> generate_loop t rest (if ok then success_count + 1 else success_count) w')"

text \<open>The body of \<^verbatim>\<open>generate_test_fonts\<close>, for any list of sizes.\<close>

definition generate_fonts :: "tool \<Rightarrow> (int \<times> path) list \<Rightarrow> world \<Rightarrow> world" where
  "generate_fonts t sizes w =
     (case generate_loop t sizes 0 (print BatchHeader w) of
        (success_count, w2) \<Rightarrow>
          let w3 = print (BatchSummary success_count (length sizes)) w2
          in if success_count > 0 then print Advice w3 else w3)"

definition generate_test_fonts :: "tool \<Rightarrow> world \<Rightarrow> world" where
  "generate_test_fonts t w = generate_fonts t test_sizes w"

section \<open>\<^verbatim>\<open>test_zpix_font.py\<close>\<close>

subsection \<open>\<^verbatim>\<open>check_generated_files\<close>\<close>

definition font_files :: "path list" where
  "font_files =
     [''src/fonts/lv_font_zpix_20.c'',
      ''src/fonts/lv_font_zpix_60.c'',
      ''src/fonts/lv_font_zpix.h'']"

text \<open>
  The loop over the files. \<^verbatim>\<open>getsize\<close> is called outside any \<^verbatim>\<open>try\<close>, so its error
  would end the function.
\<close>

fun check_files :: "path list \<Rightarrow> world \<Rightarrow> py_error + world" where
  "check_files [] w = Inr w"
| "check_files (file # rest) w =
     (if path_exists (fs w) file then
        let w1 = print (ArtifactExists file) w
        in case getsize (fs w1) file of
             Inl e \<Rightarrow> Inl e
           | Inr n \<Rightarrow> check_files rest (print (ArtifactSize n) w1)
      else check_files rest (print (ArtifactMissing file) w))"

definition check_generated_files :: "world \<Rightarrow> py_error + world" where
  "check_generated_files w = check_files font_files w"

subsection \<open>\<^verbatim>\<open>check_memory_usage\<close>\<close>

text \<open>
  \<^verbatim>\<open>size_20\<close> and \<^verbatim>\<open>size_60\<close> are local variables that exist only if their file does:
  an \<open>option\<close>. The total is their sum when both are in \<^verbatim>\<open>locals()\<close>, and 0 otherwise.
\<close>

definition measure_file :: "path \<Rightarrow> (nat \<Rightarrow> msg) \<Rightarrow> world \<Rightarrow> py_error + (nat option \<times> world)" where
  "measure_file p line w =
     (if path_exists (fs w) p then
        (case getsize (fs w) p of
           Inl e \<Rightarrow> Inl e
         | Inr n \<Rightarrow> Inr (Some n, print (line n) w))
      else Inr (None, w))"

definition memory_total :: "nat option \<Rightarrow> nat option \<Rightarrow> nat" where
  "memory_total size_20 size_60 =
     (case size_20 of
        Some a \<Rightarrow> (case size_60 of Some b \<Rightarrow> a + b | None \<Rightarrow> 0)
      | None \<Rightarrow> 0)"

definition esp32_flash :: nat where
  "esp32_flash = 2 * 1024 * 1024"

definition esp32_ram :: nat where
  "esp32_ram = 327680"

text \<open>The percentage \<^verbatim>\<open>total/esp32_flash*100\<close>, before it is rounded for printing.\<close>

definition flash_percent :: "nat \<Rightarrow> nat \<Rightarrow> rat" where
  "flash_percent total_bytes flash = of_nat total_bytes / of_nat flash * 100"

definition check_memory_usage :: "world \<Rightarrow> py_error + world" where
  "check_memory_usage w =
     (case measure_file ''src/fonts/lv_font_zpix_20.c'' Size20 (print MemoryHeader w) of
        Inl e \<Rightarrow> Inl e
      | Inr (size_20, w1) \<Rightarrow>
          (case measure_file ''src/fonts/lv_font_zpix_60.c'' Size60 w1 of
             Inl e \<Rightarrow> Inl e
           | Inr (size_60, w2) \<Rightarrow>
               let total_bytes = memory_total size_20 size_60;
                   w3 = print (MemoryTotal total_bytes) w2;
                   w4 = print (FlashUsage total_bytes esp32_flash) w3
               in Inr (print RamNote w4)))"

subsection \<open>\<^verbatim>\<open>analyze_character_range\<close>\<close>

text \<open>\<^verbatim>\<open>str.split(sep)\<close> for a separator of one character: never an empty list.\<close>

fun split_on :: "char \<Rightarrow> string \<Rightarrow> string list" where
  "split_on c [] = [[]]"
| "split_on c (x # xs) =
     (if x = c then [] # split_on c xs
      else (case split_on c xs of
              y # ys \<Rightarrow> (x # y) # ys
            | [] \<Rightarrow> [[x]]))"

text \<open>
  \<^verbatim>\<open>int(s, 16)\<close> on an ASCII string, as CPython reads it: white space around the number,
  an optional sign, an optional prefix \<^verbatim>\<open>0x\<close> or \<^verbatim>\<open>0X\<close> (one underscore may follow it),
  then hexadecimal digits of either case with single underscores between them. Anything
  else raises \<^verbatim>\<open>ValueError\<close>.
\<close>

definition is_space :: "char \<Rightarrow> bool" where
  "is_space c = (c = CHR '' '' \<or> c = CHR 0x09 \<or> c = CHR 0x0A \<or> c = CHR 0x0B \<or> c = CHR 0x0C \<or> c = CHR 0x0D)"

definition hex_digit :: "char \<Rightarrow> int option" where
  "hex_digit c =
     (let n = (of_char c :: nat) in
      if 48 \<le> n \<and> n \<le> 57 then Some (int n - 48)
      else if 97 \<le> n \<and> n \<le> 102 then Some (int n - 87)
      else if 65 \<le> n \<and> n \<le> 70 then Some (int n - 55)
      else None)"

text \<open>
  The digit loop: it stops at the first character that is neither a digit nor an
  underscore, and fails on two underscores in a row and on an underscore at the end.
\<close>

fun scan_digits :: "string \<Rightarrow> bool \<Rightarrow> int \<Rightarrow> (int \<times> string) option" where
  "scan_digits [] prev_underscore acc = (if prev_underscore then None else Some (acc, []))"
| "scan_digits (c # cs) prev_underscore acc =
     (if c = CHR ''_'' then
        (if prev_underscore then None else scan_digits cs True acc)
      else
        (case hex_digit c of
           Some d \<Rightarrow> scan_digits cs False (16 * acc + d)
         | None \<Rightarrow> (if prev_underscore then None else Some (acc, c # cs))))"

definition strip_sign :: "string \<Rightarrow> int \<times> string" where
  "strip_sign s =
     (case s of
        [] \<Rightarrow> (1, s)
      | c # cs \<Rightarrow> if c = CHR ''+'' then (1, cs) else if c = CHR ''-'' then (- 1, cs) else (1, s))"

definition strip_0x :: "string \<Rightarrow> string" where
  "strip_0x s =
     (case s of
        a # b # cs \<Rightarrow>
          if a = CHR ''0'' \<and> (b = CHR ''x'' \<or> b = CHR ''X'') then
            (case cs of
               [] \<Rightarrow> cs
             | u # ds \<Rightarrow> if u = CHR ''_'' then ds else cs)
          else s
      | _ \<Rightarrow> s)"

text \<open>
  After sign and prefix: the number must not start with an underscore, must have at least
  one digit, and only white space may follow it.
\<close>

definition parse_digits :: "int \<Rightarrow> string \<Rightarrow> py_error + int" where
  "parse_digits sign s3 =
     (case s3 of
        [] \<Rightarrow> Inl ValueError
      | c # cs \<Rightarrow>
          if c = CHR ''_'' then Inl ValueError
          else
            (case scan_digits s3 False 0 of
               None \<Rightarrow> Inl ValueError
             | Some (v, rest) \<Rightarrow>
                 if length rest = length s3 then Inl ValueError
                 else if dropWhile is_space rest \<noteq> [] then Inl ValueError
                 else Inr (sign * v)))"

definition int16 :: "string \<Rightarrow> py_error + int" where
  "int16 s =
     (case strip_sign (dropWhile is_space s) of
        (sign, s2) \<Rightarrow> parse_digits sign (strip_0x s2))"

text \<open>
  \<^verbatim>\<open>chr(i)\<close>: the string of the one code point \<open>i\<close>, kept as that number. Outside
  \<^verbatim>\<open>range(0x110000)\<close> it raises \<^verbatim>\<open>ValueError\<close>, and \<^verbatim>\<open>OverflowError\<close> when \<open>i\<close> does not
  fit a C \<^verbatim>\<open>int\<close>.
\<close>

definition py_chr :: "int \<Rightarrow> py_error + int" where
  "py_chr i =
     (if 0 \<le> i \<and> i < 0x110000 then Inr i
      else if i < - (2 ^ 31) \<or> 2 ^ 31 \<le> i then Inl OverflowError
      else Inl ValueError)"

text \<open>\<^verbatim>\<open>for i in range(start_val, end_val + 1): chars.append(chr(i))\<close>\<close>

fun range_loop :: "int list \<Rightarrow> int list \<Rightarrow> py_error + int list" where
  "range_loop [] chars = Inr chars"
| "range_loop (i # rest) chars =
     (case py_chr i of
        Inl e \<Rightarrow> Inl e
      | Inr c \<Rightarrow> range_loop rest (chars @ [c]))"

text \<open>
  The body of the loop over the tokens. \<^verbatim>\<open>start, end = r.split('-')\<close> raises
  \<^verbatim>\<open>ValueError\<close> unless the split has exactly two parts.
\<close>

definition decode_token :: "string \<Rightarrow> int list \<Rightarrow> py_error + int list" where
  "decode_token r chars =
     (if CHR ''-'' \<in> set r then
        (case split_on CHR ''-'' r of
           [start_s, end_s] \<Rightarrow>
             (case int16 start_s of
                Inl e \<Rightarrow> Inl e
              | Inr start_val \<Rightarrow>
                  (case int16 end_s of
                     Inl e \<Rightarrow> Inl e
                   | Inr end_val \<Rightarrow> range_loop [start_val..end_val] chars))
         | _ \<Rightarrow> Inl ValueError)
      else
        (case int16 r of
           Inl e \<Rightarrow> Inl e
         | Inr v \<Rightarrow>
             (case py_chr v of
                Inl e \<Rightarrow> Inl e
              | Inr c \<Rightarrow> Inr (chars @ [c]))))"

fun decode_tokens :: "string list \<Rightarrow> int list \<Rightarrow> py_error + int list" where
  "decode_tokens [] chars = Inr chars"
| "decode_tokens (r # rest) chars =
     (case decode_token r chars of
        Inl e \<Rightarrow> Inl e
      | Inr chars' \<Rightarrow> decode_tokens rest chars')"

text \<open>The parsing part of \<^verbatim>\<open>analyze_character_range\<close>, for any range expression.\<close>

definition decode_range :: "string \<Rightarrow> py_error + int list" where
  "decode_range range_hex = decode_tokens (split_on CHR '','' range_hex) []"

definition range_hex :: string where
  "range_hex = ''0x30-0x39,0x2B,0x2D,0x2A,0x2F,0x3D,0x2E,0x25,0x28,0x29,0x43,0x45,0x49,0x4E,0x4F,0x52,0x72,0x6F,0x65,0x74,0x61,0x6E,0x20,0x2C,0xA5,0x24''"

definition analyze_character_range :: "world \<Rightarrow> py_error + world" where
  "analyze_character_range w =
     (let w1 = print RangeHeader w;
          w2 = print (RawRange range_hex) w1
      in case decode_range range_hex of
           Inl e \<Rightarrow> Inl e
         | Inr chars \<Rightarrow> Inr (print (CharCount (length chars)) (print (IncludedChars chars) w2)))"

section \<open>Notions used to state the properties\<close>

text \<open>A process result counts as a success when it completed with return code 0.\<close>

definition exit_zero :: "proc_result \<Rightarrow> bool" where
  "exit_zero r = (case r of Completed rc so se \<Rightarrow> rc = 0 | TimeoutExpired \<Rightarrow> False | Raised e \<Rightarrow> False)"

text \<open>The lines \<^verbatim>\<open>generate_font\<close> prints after the external program has run.\<close>

definition size_lines :: "fstat \<Rightarrow> msg list" where
  "size_lines st = (case st of File n \<Rightarrow> [FileSizeKB n] | Missing \<Rightarrow> [] | Inaccessible \<Rightarrow> [])"

definition outcome_lines :: "int \<Rightarrow> path \<Rightarrow> proc_result \<Rightarrow> filesystem \<Rightarrow> msg list" where
  "outcome_lines sz output_file r f =
     (case r of
        Completed rc so se \<Rightarrow>
          if rc = 0 then GenerateOk sz output_file # size_lines (f output_file)
          else [GenerateFailed se]
      | TimeoutExpired \<Rightarrow> [GenerateTimeout]
      | Raised e \<Rightarrow> [GenerateError e])"

subsection \<open>Concrete environments\<close>

text \<open>An executable that cannot be started, one that exits with 0 and writes nothing.\<close>

definition no_such_tool :: tool where
  "no_such_tool cmd timeout f = (Raised ''FileNotFoundError'', f)"

definition silent_ok_tool :: tool where
  "silent_ok_tool cmd timeout f = (Completed 0 [] [], f)"

definition empty_world :: world where
  "empty_world = \<lparr>fs = (\<lambda>p. Missing), calls = [], out = []\<rparr>"

definition font_only_world :: world where
  "font_only_world =
     \<lparr>fs = (\<lambda>p. if p = ''zpix.ttf'' then File 1 else Missing), calls = [], out = []\<rparr>"

text \<open>A program that fails on the 30 pixel request and writes 2048 bytes for any other.\<close>

definition fails_on_30 :: tool where
  "fails_on_30 cmd timeout f =
     (if cmd ! 5 = ''30'' then (Completed 1 [] ''cannot render'', f)
      else (Completed 0 [] [], f(cmd ! 12 := File 2048)))"

definition two_paths_world :: world where
  "two_paths_world =
     \<lparr>fs = (\<lambda>p. if p = ''a.c'' then File 1024
                else if p = ''locked/c.c'' then Inaccessible else Missing),
      calls = [], out = []\<rparr>"

definition one_font_world :: world where
  "one_font_world =
     \<lparr>fs = (\<lambda>p. if p = ''src/fonts/lv_font_zpix_20.c'' then File 1024 else Missing),
      calls = [], out = []\<rparr>"

definition both_fonts_world :: world where
  "both_fonts_world =
     \<lparr>fs = (\<lambda>p. if p = ''src/fonts/lv_font_zpix_20.c'' then File 1000
                else if p = ''src/fonts/lv_font_zpix_60.c'' then File 24 else Missing),
      calls = [], out = []\<rparr>"

subsection \<open>The batch\<close>

text \<open>
  Every call of \<^verbatim>\<open>generate_font\<close> prints exactly one of two lines first: the font file
  is missing, or the size is being generated. A call that returns True prints the success
  line, and no other call does.
\<close>

fun is_attempt :: "msg \<Rightarrow> bool" where
  "is_attempt FontFileMissing = True"
| "is_attempt (Generating sz) = True"
| "is_attempt m = False"

fun is_success :: "msg \<Rightarrow> bool" where
  "is_success (GenerateOk sz p) = True"
| "is_success m = False"

text \<open>The lines printed by the loop of the batch, between the header and the summary.\<close>

definition batch_lines :: "tool \<Rightarrow> (int \<times> path) list \<Rightarrow> world \<Rightarrow> msg list" where
  "batch_lines t sizes w =
     drop (length (out w) + 1) (out (snd (generate_loop t sizes 0 (print BatchHeader w))))"

text \<open>The external program never removes the font file.\<close>

definition keeps_font :: "tool \<Rightarrow> bool" where
  "keeps_font t =
     (\<forall>cmd n f. path_exists f ''zpix.ttf'' \<longrightarrow> path_exists (snd (t cmd n f)) ''zpix.ttf'')"

definition request_of :: "int \<times> path \<Rightarrow> string list \<times> nat" where
  "request_of rq = (font_cmd (fst rq) (snd rq), 60)"

subsection \<open>The reports on files\<close>

definition artifact_lines :: "filesystem \<Rightarrow> path \<Rightarrow> msg list" where
  "artifact_lines f p =
     (case f p of
        File n \<Rightarrow> [ArtifactExists p, ArtifactSize n]
      | Missing \<Rightarrow> [ArtifactMissing p]
      | Inaccessible \<Rightarrow> [ArtifactMissing p])"

definition measured_lines :: "(nat \<Rightarrow> msg) \<Rightarrow> fstat \<Rightarrow> msg list" where
  "measured_lines line st = (case st of File n \<Rightarrow> [line n] | Missing \<Rightarrow> [] | Inaccessible \<Rightarrow> [])"

text \<open>The sum of two sizes when both files can be measured, and 0 otherwise.\<close>

definition both_sizes :: "fstat \<Rightarrow> fstat \<Rightarrow> nat" where
  "both_sizes a b =
     (case a of
        File m \<Rightarrow> (case b of File n \<Rightarrow> m + n | Missing \<Rightarrow> 0 | Inaccessible \<Rightarrow> 0)
      | Missing \<Rightarrow> 0
      | Inaccessible \<Rightarrow> 0)"

section \<open>Basic facts\<close>

lemma getsize_exists: "path_exists f p \<Longrightarrow> \<exists>n. f p = File n \<and> getsize f p = Inr n"
  by (cases "f p") (simp_all add: path_exists_def getsize_def)

lemma fs_print [simp]: "fs (print m w) = fs w"
  by (simp add: print_def)

lemma calls_print [simp]: "calls (print m w) = calls w"
  by (simp add: print_def)

lemma out_print [simp]: "out (print m w) = out w @ [m]"
  by (simp add: print_def)

text \<open>
  One call of \<^verbatim>\<open>generate_font\<close> with the font file present: the external program runs
  once, and its result alone decides the value returned.
\<close>

lemma generate_font_run_result:
  assumes "path_exists (fs w) ''zpix.ttf''"
    and "t (font_cmd sz output_file) 60 (fs w) = (r, f')"
  shows "generate_font t sz output_file w =
     (exit_zero r,
      \<lparr>fs = f',
       calls = calls w @ [(font_cmd sz output_file, 60)],
       out = out w @ [Generating sz, CommandLine (join '' '' (font_cmd sz output_file))]
               @ outcome_lines sz output_file r f'\<rparr>)"
proof (cases r)
  case (Completed rc so se)
  show ?thesis
  proof (cases "f' output_file")
    case (File n)
    with assms Completed show ?thesis
      by (simp add: generate_font_def subprocess_run_def Let_def exit_zero_def
          outcome_lines_def size_lines_def path_exists_def getsize_def print_def)
  next
    case Missing
    with assms Completed show ?thesis
      by (simp add: generate_font_def subprocess_run_def Let_def exit_zero_def
          outcome_lines_def size_lines_def path_exists_def getsize_def print_def)
  next
    case Inaccessible
    with assms Completed show ?thesis
      by (simp add: generate_font_def subprocess_run_def Let_def exit_zero_def
          outcome_lines_def size_lines_def path_exists_def getsize_def print_def)
  qed
next
  case TimeoutExpired
  with assms show ?thesis
    by (simp add: generate_font_def subprocess_run_def Let_def exit_zero_def
        outcome_lines_def print_def)
next
  case (Raised e)
  with assms show ?thesis
    by (simp add: generate_font_def subprocess_run_def Let_def exit_zero_def
        outcome_lines_def print_def)
qed

lemma generate_font_run:
  assumes "path_exists (fs w) ''zpix.ttf''"
  shows "generate_font t sz output_file w =
     (exit_zero (fst (t (font_cmd sz output_file) 60 (fs w))),
      \<lparr>fs = snd (t (font_cmd sz output_file) 60 (fs w)),
       calls = calls w @ [(font_cmd sz output_file, 60)],
       out = out w @ [Generating sz, CommandLine (join '' '' (font_cmd sz output_file))]
               @ outcome_lines sz output_file
                   (fst (t (font_cmd sz output_file) 60 (fs w)))
                   (snd (t (font_cmd sz output_file) 60 (fs w)))\<rparr>)"
  using assms
  by (rule generate_font_run_result) simp

lemma generate_font_absent:
  "\<not> path_exists (fs w) ''zpix.ttf'' \<Longrightarrow>
   generate_font t sz output_file w = (False, w\<lparr>out := out w @ [FontFileMissing]\<rparr>)"
  by (simp add: generate_font_def print_def)

section \<open>The tool availability probe\<close>

text \<open>
  Claim C7. \<^verbatim>\<open>check_lv_font_conv\<close> returns True only when the probed process completes
  with return code 0. For every other result of the one invocation it makes (a nonzero
  return code, a timeout, any exception such as an executable that does not exist) it
  returns False; it has no failing result of its own.
\<close>

theorem probe_true_only_on_exit_zero:
  "fst (check_lv_font_conv t w) =
     (case fst (t [''npx'', ''lv_font_conv'', ''--help''] 10 (fs w)) of
        Completed rc so se \<Rightarrow> rc = 0
      | TimeoutExpired \<Rightarrow> False
      | Raised e \<Rightarrow> False)
   \<and> calls (snd (check_lv_font_conv t w)) = calls w @ [([''npx'', ''lv_font_conv'', ''--help''], 10)]"
  by (cases "t [''npx'', ''lv_font_conv'', ''--help''] 10 (fs w)")
     (simp add: check_lv_font_conv_def subprocess_run_def split: proc_result.splits)

theorem probe_missing_executable_witness:
  "fst (check_lv_font_conv no_such_tool empty_world) = False
   \<and> calls (snd (check_lv_font_conv no_such_tool empty_world)) = [([''npx'', ''lv_font_conv'', ''--help''], 10)]"
  using probe_true_only_on_exit_zero [of no_such_tool empty_world]
  by (simp add: no_such_tool_def empty_world_def)

section \<open>One rasterization request\<close>

text \<open>
  Claim C5. When the font file \<^verbatim>\<open>zpix.ttf\<close> does not exist, \<^verbatim>\<open>generate_font\<close> returns
  False after printing the line that says the font file is missing, and it starts no
  process: the list of executed commands and the file system are as before.
\<close>

theorem generate_font_missing_input:
  assumes "\<not> path_exists (fs w) ''zpix.ttf''"
  shows "generate_font t sz output_file w = (False, w\<lparr>out := out w @ [FontFileMissing]\<rparr>)
    \<and> calls (snd (generate_font t sz output_file w)) = calls w
    \<and> fs (snd (generate_font t sz output_file w)) = fs w"
  using assms by (simp add: generate_font_def print_def)

theorem generate_font_missing_input_witness:
  "\<not> path_exists (fs empty_world) ''zpix.ttf''
   \<and> generate_font silent_ok_tool 30 ''out.c'' empty_world
       = (False, \<lparr>fs = (\<lambda>p. Missing), calls = [], out = [FontFileMissing]\<rparr>)
   \<and> calls (snd (generate_font silent_ok_tool 30 ''out.c'' empty_world)) = []"
proof -
  have h: "\<not> path_exists (fs empty_world) ''zpix.ttf''"
    by (simp add: empty_world_def path_exists_def)
  show ?thesis
    using h generate_font_missing_input [OF h, of silent_ok_tool 30 "''out.c''"]
    by (simp add: empty_world_def)
qed

text \<open>
  Claim C6. When the font file exists, \<^verbatim>\<open>generate_font\<close> executes exactly one command,
  with a timeout of 60 seconds. Its arguments come in this order: the font source, the
  point size, the bit depth 4, the output format, the flag that turns compression off, the
  destination path, and last the character range, which is the literal string of hex
  tokens.
\<close>

theorem generate_font_command_line:
  assumes "path_exists (fs w) ''zpix.ttf''"
  shows "calls (snd (generate_font t sz output_file w)) =
     calls w @
     [([''npx'', ''lv_font_conv'',
        ''--font'', ''zpix.ttf'',
        ''--size'', str_int sz,
        ''--bpp'', ''4'',
        ''--format'', ''lvgl'',
        ''--no-compress'',
        ''--output'', output_file,
        ''--range'', ''0x30-0x39,0x2B,0x2D,0x2A,0x2F,0x3D,0x2E,0x25,0x28,0x29,0x43,0x45,0x49,0x4E,0x4F,0x52,0x72,0x6F,0x65,0x74,0x61,0x6E,0x20,0x2C,0xA5,0x24''], 60)]"
proof -
  have "calls (snd (generate_font t sz output_file w)) = calls w @ [(font_cmd sz output_file, 60)]"
    by (simp add: generate_font_run [OF assms])
  then show ?thesis
    by (simp add: font_cmd_def char_range_def)
qed

theorem generate_font_command_line_witness:
  "path_exists (fs font_only_world) ''zpix.ttf''
   \<and> calls (snd (generate_font no_such_tool 30 ''src/fonts/lv_font_zpix_30.c'' font_only_world)) =
     [([''npx'', ''lv_font_conv'',
        ''--font'', ''zpix.ttf'',
        ''--size'', ''30'',
        ''--bpp'', ''4'',
        ''--format'', ''lvgl'',
        ''--no-compress'',
        ''--output'', ''src/fonts/lv_font_zpix_30.c'',
        ''--range'', ''0x30-0x39,0x2B,0x2D,0x2A,0x2F,0x3D,0x2E,0x25,0x28,0x29,0x43,0x45,0x49,0x4E,0x4F,0x52,0x72,0x6F,0x65,0x74,0x61,0x6E,0x20,0x2C,0xA5,0x24''], 60)]"
proof -
  have h: "path_exists (fs font_only_world) ''zpix.ttf''"
    by (simp add: font_only_world_def path_exists_def)
  have s: "str_int 30 = ''30''"
    by code_simp
  show ?thesis
    using h generate_font_command_line [OF h, of no_such_tool 30 "''src/fonts/lv_font_zpix_30.c''"]
    by (simp add: s font_only_world_def)
qed

text \<open>
  Claim C2, as the specification states it, fails: a process that exits with 0 and
  leaves no output file still makes \<^verbatim>\<open>generate_font\<close> return True.
\<close>

theorem success_without_output_file:
  "fst (generate_font silent_ok_tool 30 ''out.c'' font_only_world) = True
   \<and> \<not> path_exists (fs (snd (generate_font silent_ok_tool 30 ''out.c'' font_only_world))) ''out.c''"
  by (simp add: generate_font_def subprocess_run_def Let_def silent_ok_tool_def
      font_only_world_def path_exists_def print_def)

text \<open>
  Claim C2, amended. With the font file present, \<^verbatim>\<open>generate_font\<close> returns True exactly
  when the process completes with return code 0, whether or not the output file exists
  afterwards. The value returned is a boolean and carries no size: the size of the output
  file is only printed, after the success line, and only when the file exists afterwards.
\<close>

theorem generate_font_success_iff_exit_zero:
  assumes "path_exists (fs w) ''zpix.ttf''"
  shows "fst (generate_font t sz output_file w) =
           exit_zero (fst (t (font_cmd sz output_file) 60 (fs w)))
         \<and> out (snd (generate_font t sz output_file w)) =
           out w @ [Generating sz, CommandLine (join '' '' (font_cmd sz output_file))]
             @ outcome_lines sz output_file
                 (fst (t (font_cmd sz output_file) 60 (fs w)))
                 (snd (t (font_cmd sz output_file) 60 (fs w)))"
  by (simp add: generate_font_run [OF assms])

theorem generate_font_success_witness:
  "path_exists (fs font_only_world) ''zpix.ttf''
   \<and> fst (generate_font silent_ok_tool 30 ''out.c'' font_only_world) = True
   \<and> out (snd (generate_font silent_ok_tool 30 ''out.c'' font_only_world)) =
       [Generating 30, CommandLine (join '' '' (font_cmd 30 ''out.c'')), GenerateOk 30 ''out.c'']"
proof -
  have h: "path_exists (fs font_only_world) ''zpix.ttf''"
    by (simp add: font_only_world_def path_exists_def)
  show ?thesis
    using h generate_font_success_iff_exit_zero [OF h, of silent_ok_tool 30 "''out.c''"]
    by (simp add: silent_ok_tool_def exit_zero_def outcome_lines_def size_lines_def
        font_only_world_def)
qed

section \<open>The batch over the requested sizes\<close>

lemma no_attempt_in_outcome: "filter is_attempt (outcome_lines sz p r f) = []"
  by (cases r; cases "f p") (simp_all add: outcome_lines_def size_lines_def)

lemma success_in_outcome:
  "length (filter is_success (outcome_lines sz p r f)) = (if exit_zero r then 1 else 0)"
  by (cases r; cases "f p") (simp_all add: outcome_lines_def size_lines_def exit_zero_def)

lemma generate_font_lines:
  "\<exists>ms. out (snd (generate_font t sz p w)) = out w @ ms
        \<and> length (filter is_attempt ms) = 1
        \<and> length (filter is_success ms) = (if fst (generate_font t sz p w) then 1 else 0)"
proof (cases "path_exists (fs w) ''zpix.ttf''")
  case False
  then show ?thesis
    by (simp add: generate_font_absent)
next
  case True
  show ?thesis
    by (simp add: generate_font_run [OF True] no_attempt_in_outcome success_in_outcome)
qed

lemma generate_loop_lines:
  "\<exists>ms. out (snd (generate_loop t sizes c w)) = out w @ ms
        \<and> length (filter is_attempt ms) = length sizes
        \<and> fst (generate_loop t sizes c w) = c + length (filter is_success ms)"
proof (induction sizes arbitrary: c w)
  case Nil
  show ?case by simp
next
  case (Cons rq rest)
  obtain sz p where rq: "rq = (sz, p)" by (cases rq)
  obtain ok w' where g: "generate_font t sz p w = (ok, w')" by (cases "generate_font t sz p w")
  from generate_font_lines [of t sz p w] g
  obtain ms1 where ms1: "out w' = out w @ ms1" "length (filter is_attempt ms1) = 1"
      "length (filter is_success ms1) = (if ok then 1 else 0)"
    by auto
  from Cons.IH [of "if ok then c + 1 else c" w']
  obtain ms2 where ms2:
      "out (snd (generate_loop t rest (if ok then c + 1 else c) w')) = out w' @ ms2"
      "length (filter is_attempt ms2) = length rest"
      "fst (generate_loop t rest (if ok then c + 1 else c) w')
         = (if ok then c + 1 else c) + length (filter is_success ms2)"
    by blast
  have "out (snd (generate_loop t (rq # rest) c w)) = out w @ (ms1 @ ms2)"
    using rq g ms1 ms2 by simp
  moreover have "length (filter is_attempt (ms1 @ ms2)) = length (rq # rest)"
    using ms1 ms2 by simp
  moreover have "fst (generate_loop t (rq # rest) c w) = c + length (filter is_success (ms1 @ ms2))"
    using rq g ms1 ms2 by simp
  ultimately show ?case by blast
qed

lemma generate_font_keeps:
  assumes "keeps_font t" "path_exists (fs w) ''zpix.ttf''"
  shows "path_exists (fs (snd (generate_font t sz p w))) ''zpix.ttf''
       \<and> calls (snd (generate_font t sz p w)) = calls w @ [request_of (sz, p)]"
proof -
  have "path_exists (snd (t (font_cmd sz p) 60 (fs w))) ''zpix.ttf''"
    using assms unfolding keeps_font_def by blast
  then show ?thesis
    by (simp add: generate_font_run [OF assms(2)] request_of_def)
qed

lemma generate_loop_calls:
  assumes "keeps_font t" "path_exists (fs w) ''zpix.ttf''"
  shows "calls (snd (generate_loop t sizes c w)) = calls w @ map request_of sizes"
  using assms(2)
proof (induction sizes arbitrary: c w)
  case Nil
  show ?case by simp
next
  case (Cons rq rest)
  obtain sz p where rq: "rq = (sz, p)" by (cases rq)
  obtain ok w' where g: "generate_font t sz p w = (ok, w')" by (cases "generate_font t sz p w")
  from generate_font_keeps [OF assms(1) Cons.prems, of sz p] g
  have k: "path_exists (fs w') ''zpix.ttf''" and c: "calls w' = calls w @ [request_of (sz, p)]"
    by simp_all
  show ?case
    using rq g c Cons.IH [OF k] by simp
qed

lemma keeps_fails_on_30: "keeps_font fails_on_30"
  by (simp add: keeps_font_def fails_on_30_def path_exists_def)

lemma fails_on_30_font_cmd:
  "fails_on_30 (font_cmd sz p) n f =
     (if str_int sz = ''30'' then (Completed 1 [] ''cannot render'', f)
      else (Completed 0 [] [], f(p := File 2048)))"
  by (simp add: fails_on_30_def font_cmd_def)

lemma str_int_30: "str_int 30 = ''30''"
  by code_simp

lemma str_int_80: "str_int 80 = ''80''"
  by code_simp

lemma str_int_100: "str_int 100 = ''100''"
  by code_simp

text \<open>
  Claim C9. A batch over any list of sizes calls \<^verbatim>\<open>generate_font\<close> once for every size,
  whatever the earlier calls returned: between the header and the summary the lines hold
  exactly as many attempt lines as there are sizes. The summary line reports N of M, where
  N is the number of success lines, that is of calls that returned True, and M is the
  number of sizes. When the external program never removes the font file and the file is
  there at the start, the commands executed are those of the sizes, one each, in order.
\<close>

theorem batch_attempts_every_size:
  "out (generate_fonts t sizes w) =
     out w @ [BatchHeader] @ batch_lines t sizes w
       @ [BatchSummary (length (filter is_success (batch_lines t sizes w))) (length sizes)]
       @ (if 0 < length (filter is_success (batch_lines t sizes w)) then [Advice] else [])
   \<and> length (filter is_attempt (batch_lines t sizes w)) = length sizes
   \<and> (keeps_font t \<and> path_exists (fs w) ''zpix.ttf'' \<longrightarrow>
        calls (generate_fonts t sizes w) = calls w @ map request_of sizes)"
proof -
  obtain n w2 where loop: "generate_loop t sizes 0 (print BatchHeader w) = (n, w2)"
    by (cases "generate_loop t sizes 0 (print BatchHeader w)")
  from generate_loop_lines [of t sizes 0 "print BatchHeader w"] loop
  obtain ms where ms: "out w2 = out w @ [BatchHeader] @ ms"
      "length (filter is_attempt ms) = length sizes" "n = length (filter is_success ms)"
    by auto
  have bl: "batch_lines t sizes w = ms"
    by (simp add: batch_lines_def loop ms(1))
  have 1: "out (generate_fonts t sizes w) =
     out w @ [BatchHeader] @ ms @ [BatchSummary n (length sizes)] @ (if 0 < n then [Advice] else [])"
    by (simp add: generate_fonts_def loop Let_def ms(1))
  have 3: "calls (generate_fonts t sizes w) = calls w @ map request_of sizes"
    if "keeps_font t" "path_exists (fs w) ''zpix.ttf''"
  proof -
    have "calls w2 = calls (print BatchHeader w) @ map request_of sizes"
      using generate_loop_calls [of t "print BatchHeader w" sizes 0] that loop by simp
    then show ?thesis
      by (simp add: generate_fonts_def loop Let_def)
  qed
  show ?thesis
    using 1 ms(2) ms(3) 3 by (simp add: bl)
qed

theorem batch_witness:
  "keeps_font fails_on_30 \<and> path_exists (fs font_only_world) ''zpix.ttf''
   \<and> out (generate_fonts fails_on_30 test_sizes font_only_world) =
       [BatchHeader,
        Generating 30, CommandLine (join '' '' (font_cmd 30 ''src/fonts/lv_font_zpix_30.c'')),
        GenerateFailed ''cannot render'',
        Generating 80, CommandLine (join '' '' (font_cmd 80 ''src/fonts/lv_font_zpix_80.c'')),
        GenerateOk 80 ''src/fonts/lv_font_zpix_80.c'', FileSizeKB 2048,
        Generating 100, CommandLine (join '' '' (font_cmd 100 ''src/fonts/lv_font_zpix_100.c'')),
        GenerateOk 100 ''src/fonts/lv_font_zpix_100.c'', FileSizeKB 2048,
        BatchSummary 2 3, Advice]
   \<and> length (filter is_attempt (batch_lines fails_on_30 test_sizes font_only_world)) = 3
   \<and> calls (generate_fonts fails_on_30 test_sizes font_only_world) =
       [(font_cmd 30 ''src/fonts/lv_font_zpix_30.c'', 60),
        (font_cmd 80 ''src/fonts/lv_font_zpix_80.c'', 60),
        (font_cmd 100 ''src/fonts/lv_font_zpix_100.c'', 60)]"
proof -
  have k: "keeps_font fails_on_30"
    by (rule keeps_fails_on_30)
  have h: "path_exists (fs font_only_world) ''zpix.ttf''"
    by (simp add: font_only_world_def path_exists_def)
  have e: "out (generate_fonts fails_on_30 test_sizes font_only_world) =
       [BatchHeader,
        Generating 30, CommandLine (join '' '' (font_cmd 30 ''src/fonts/lv_font_zpix_30.c'')),
        GenerateFailed ''cannot render'',
        Generating 80, CommandLine (join '' '' (font_cmd 80 ''src/fonts/lv_font_zpix_80.c'')),
        GenerateOk 80 ''src/fonts/lv_font_zpix_80.c'', FileSizeKB 2048,
        Generating 100, CommandLine (join '' '' (font_cmd 100 ''src/fonts/lv_font_zpix_100.c'')),
        GenerateOk 100 ''src/fonts/lv_font_zpix_100.c'', FileSizeKB 2048,
        BatchSummary 2 3, Advice]"
    by (simp add: generate_fonts_def test_sizes_def generate_font_def subprocess_run_def
        fails_on_30_font_cmd str_int_30 str_int_80 str_int_100 font_only_world_def
        path_exists_def getsize_def print_def Let_def)
  show ?thesis
    using k h e batch_attempts_every_size [of fails_on_30 test_sizes font_only_world]
    by (simp add: test_sizes_def request_of_def font_only_world_def)
qed

section \<open>The artifact inspector\<close>

lemma check_files_step:
  "check_files (p # ps) w = check_files ps (w\<lparr>out := out w @ artifact_lines (fs w) p\<rparr>)"
  by (cases "fs w p") (simp_all add: path_exists_def getsize_def artifact_lines_def print_def Let_def)

text \<open>
  Claim C8. For every list of paths, \<^verbatim>\<open>check_generated_files\<close>' loop reports each path in
  order: a path that exists with its size in bytes, a path that is missing or cannot be
  reached as not existing. It always returns normally (\<^verbatim>\<open>getsize\<close> is only called on a
  path that exists), and it changes nothing but the printed lines: the file system and the
  list of executed commands are as before.
\<close>

theorem check_files_report:
  "check_files paths w = Inr (w\<lparr>out := out w @ concat (map (artifact_lines (fs w)) paths)\<rparr>)"
proof (induction paths arbitrary: w)
  case Nil
  show ?case by simp
next
  case (Cons p ps)
  show ?case
    unfolding check_files_step
    by (simp add: Cons.IH)
qed

theorem check_files_witness:
  "check_files [''a.c'', ''b.c'', ''locked/c.c''] two_paths_world =
     Inr (two_paths_world\<lparr>out := [ArtifactExists ''a.c'', ArtifactSize 1024,
                                  ArtifactMissing ''b.c'', ArtifactMissing ''locked/c.c'']\<rparr>)"
  using check_files_report [of "[''a.c'', ''b.c'', ''locked/c.c'']" two_paths_world]
  by (simp add: two_paths_world_def artifact_lines_def)

section \<open>The budget verifier\<close>

lemma measure_file_eq:
  "measure_file p line w =
     Inr (case fs w p of File n \<Rightarrow> Some n | Missing \<Rightarrow> None | Inaccessible \<Rightarrow> None,
          w\<lparr>out := out w @ measured_lines line (fs w p)\<rparr>)"
  by (cases "fs w p") (simp_all add: measure_file_def path_exists_def getsize_def measured_lines_def print_def)

lemma memory_total_eq:
  "memory_total (case a of File n \<Rightarrow> Some n | Missing \<Rightarrow> None | Inaccessible \<Rightarrow> None)
                (case b of File n \<Rightarrow> Some n | Missing \<Rightarrow> None | Inaccessible \<Rightarrow> None) = both_sizes a b"
  by (cases a; cases b) (simp_all add: memory_total_def both_sizes_def)

text \<open>
  Claim C1, as the specification states it, fails: with the 20 pixel file of 1024 bytes
  and the 60 pixel file missing, the total printed is 0, not 1024, and the flash share
  is 0.
\<close>

theorem one_missing_total_is_zero:
  "check_memory_usage one_font_world =
     Inr (one_font_world\<lparr>out := [MemoryHeader, Size20 1024, MemoryTotal 0, FlashUsage 0 2097152, RamNote]\<rparr>)
   \<and> flash_percent 0 2097152 = 0"
  by (simp add: check_memory_usage_def measure_file_def memory_total_def Let_def print_def
      esp32_flash_def one_font_world_def path_exists_def getsize_def flash_percent_def)

text \<open>
  Claim C1, amended. \<^verbatim>\<open>check_memory_usage\<close> never fails. The total it reports is the sum
  of the two sizes when both font files exist, and 0 when either is missing; the flash
  share is that total against 2097152 bytes.
\<close>

theorem check_memory_usage_total:
  "check_memory_usage w =
     Inr (w\<lparr>out := out w @ [MemoryHeader]
            @ measured_lines Size20 (fs w ''src/fonts/lv_font_zpix_20.c'')
            @ measured_lines Size60 (fs w ''src/fonts/lv_font_zpix_60.c'')
            @ [MemoryTotal (both_sizes (fs w ''src/fonts/lv_font_zpix_20.c'') (fs w ''src/fonts/lv_font_zpix_60.c'')),
               FlashUsage (both_sizes (fs w ''src/fonts/lv_font_zpix_20.c'') (fs w ''src/fonts/lv_font_zpix_60.c'')) 2097152,
               RamNote]\<rparr>)"
  by (simp add: check_memory_usage_def measure_file_eq memory_total_eq Let_def print_def esp32_flash_def)

theorem check_memory_usage_witness:
  "check_memory_usage both_fonts_world =
     Inr (both_fonts_world\<lparr>out := [MemoryHeader, Size20 1000, Size60 24, MemoryTotal 1024,
                                   FlashUsage 1024 2097152, RamNote]\<rparr>)
   \<and> flash_percent 1024 2097152 = 25 / 512"
  using check_memory_usage_total [of both_fonts_world]
  by (simp add: both_fonts_world_def measured_lines_def both_sizes_def flash_percent_def)

end
